theory Spec2Isabelle
  imports Main
begin

section \<open>The proxy package of the sidecar: a shallow embedding\<close>

text \<open>
  The Go package \<open>proxy\<close> has five files: the connection-creator type, the server
  (\<open>RoundTrip\<close>, \<open>roundTripLocal\<close>, \<open>roundTripRemote\<close>, \<open>respondWithError\<close>,
  \<open>getRemoteProxyAddress\<close>, \<open>StartNonBlocking\<close>), \<open>status.go\<close>, \<open>pool.go\<close> and
  \<open>util.go\<close>. Go strings are byte strings, modelled as \<open>string\<close>. A Go function that
  returns \<open>(value, error)\<close> returns a pair whose second component is \<open>None\<close> for a
  \<open>nil\<close> error. Calls that leave the process (name resolution, the connection creator,
  the status RPC, the HTTP transport, the logger) are recorded in a trace of events, in
  program order.
\<close>

subsection \<open>Library functions of Go used by the package\<close>

text \<open>
  \<open>strings.Split(s, sep)\<close> for a separator of one byte, as the package calls it
  (\<open>"."\<close> and \<open>":"\<close>): the substrings between the separators, so one more element than
  there are separators; the empty string gives one empty element. \<open>cur\<close> holds the
  bytes of the current element, latest first.
\<close>

fun splitAcc :: "char \<Rightarrow> string \<Rightarrow> string \<Rightarrow> string list" where
  "splitAcc sep cur [] = [rev cur]"
| "splitAcc sep cur (c # cs) =
     (if c = sep then rev cur # splitAcc sep [] cs else splitAcc sep (c # cur) cs)"

definition Split :: "string \<Rightarrow> char \<Rightarrow> string list" where
  "Split s sep = splitAcc sep [] s"

text \<open>\<open>strings.Join(elems, sep)\<close>.\<close>

fun Join :: "string list \<Rightarrow> string \<Rightarrow> string" where
  "Join [] sep = []"
| "Join [x] sep = x"
| "Join (x # y # ys) sep = x @ sep @ Join (y # ys) sep"

text \<open>
  The verb \<open>%d\<close> of \<open>fmt.Sprintf\<close> on an integer: decimal digits, most significant
  first, with a minus sign for a negative number.
\<close>

definition digit :: "nat \<Rightarrow> char" where
  "digit n = ''0123456789'' ! (n mod 10)"

function decimal :: "nat \<Rightarrow> string" where
  "decimal n = (if n < 10 then [digit n] else decimal (n div 10) @ [digit n])"
  by pat_completeness auto
termination
  by (relation "measure id") auto

declare decimal.simps [simp del]

definition fmt_d :: "int \<Rightarrow> string" where
  "fmt_d i = (if i < 0 then CHR ''-'' # decimal (nat (- i)) else decimal (nat i))"

text \<open>An error value, with the message it was created with.\<close>

datatype error = Error string

subsection \<open>util.go: the identity parser\<close>

record resolvedAppID =
  Original :: string
  Namespace :: string
  AppID :: string

text \<open>The zero value \<open>resolvedAppID{}\<close>.\<close>

definition zeroResolvedAppID :: resolvedAppID where
  "zeroResolvedAppID = \<lparr>Original = [], Namespace = [], AppID = []\<rparr>"

definition resolveTargetAppID :: "string \<Rightarrow> string \<Rightarrow> resolvedAppID \<times> error option" where
  "resolveTargetAppID namespace original =
     (let items = Split original (CHR ''.'') in
      if length items = 1 then
        (\<lparr>Original = original, Namespace = namespace, AppID = original\<rparr>, None)
      else if length items = 2 then
        (\<lparr>Original = original, Namespace = items ! 1, AppID = items ! 0\<rparr>, None)
      else
        (zeroResolvedAppID, Some (Error (''invalid app id '' @ original))))"

subsection \<open>status.go: the status registry\<close>

record ServerStatus =
  Enabled :: bool
  Port :: int

text \<open>
  The registry is one \<open>ServerStatus\<close> behind a mutex; both methods hold the mutex for
  their whole body, so each is one atomic step on the registry's state.
\<close>

record statusMonitor =
  status :: ServerStatus

definition zeroServerStatus :: ServerStatus where
  "zeroServerStatus = \<lparr>Enabled = False, Port = 0\<rparr>"

definition NewStatusMonitor :: statusMonitor where
  "NewStatusMonitor = \<lparr>status = zeroServerStatus\<rparr>"

definition SetStatus :: "statusMonitor \<Rightarrow> ServerStatus \<Rightarrow> statusMonitor" where
  "SetStatus m st = m\<lparr>status := st\<rparr>"

definition Status :: "statusMonitor \<Rightarrow> ServerStatus" where
  "Status m = status m"

subsection \<open>pool.go: the transport cache\<close>

type_synonym addressProcessor = "string \<Rightarrow> string \<times> error option"

text \<open>
  An \<open>http.Transport\<close> built by the pool has one field set, the closure \<open>DialContext\<close>,
  which captures \<open>addr\<close>. The closure is kept as the captured address; \<open>DialContext\<close>
  gives the network and address that it dials.
\<close>

record Transport =
  DialAddr :: string

definition DialContext :: "Transport \<Rightarrow> string \<Rightarrow> string \<Rightarrow> string \<times> string" where
  "DialContext t network a = (network, DialAddr t)"

text \<open>
  The pool stores pointers. The transports allocated so far are a list, a pointer is an
  index into it, and \<open>&http.Transport{...}\<close> appends. The field \<open>transports\<close> is \<open>None\<close>
  while the Go map is \<open>nil\<close>.
\<close>

type_synonym ref = nat

record pool =
  transports :: "(string \<rightharpoonup> ref) option"

record store =
  heap :: "Transport list"
  thePool :: pool

definition Get :: "store \<Rightarrow> string \<Rightarrow> addressProcessor \<Rightarrow> store \<times> ref \<times> error option" where
  "Get st addr ap =
     (let m = (case transports (thePool st) of None \<Rightarrow> Map.empty | Some m \<Rightarrow> m) in
      case m addr of
        Some t \<Rightarrow> (st\<lparr>thePool := (thePool st)\<lparr>transports := Some m\<rparr>\<rparr>, t, None)
      | None \<Rightarrow>
          (let t = length (heap st) in
           (st\<lparr>heap := heap st @ [\<lparr>DialAddr = addr\<rparr>],
               thePool := (thePool st)\<lparr>transports := Some (m(addr \<mapsto> t))\<rparr>\<rparr>, t, None)))"

text \<open>A run of calls of \<open>Get\<close>, one after the other (the mutex serialises them).\<close>

fun Gets :: "store \<Rightarrow> (string \<times> addressProcessor) list \<Rightarrow> store" where
  "Gets st [] = st"
| "Gets st ((addr, ap) # calls) = Gets (fst (Get st addr ap)) calls"

text \<open>A process that has just started: nothing allocated, the map still \<open>nil\<close>.\<close>

definition newStore :: store where
  "newStore = \<lparr>heap = [], thePool = \<lparr>transports = None\<rparr>\<rparr>"

text \<open>The map of the pool, with the \<open>nil\<close> map read as the empty map.\<close>

definition poolMap :: "store \<Rightarrow> (string \<rightharpoonup> ref)" where
  "poolMap st = (case transports (thePool st) of None \<Rightarrow> Map.empty | Some m \<Rightarrow> m)"

text \<open>
  No two allocated transports dial the same address, and each address that has a
  transport is a key of the map.
\<close>

definition onePerKey :: "store \<Rightarrow> bool" where
  "onePerKey st = (distinct (map DialAddr (heap st)) \<and> set (map DialAddr (heap st)) \<subseteq> dom (poolMap st))"

subsection \<open>The server\<close>

record ServerConfig =
  ProxyPort :: int
  ApplicationPort :: int
  Namespace_cfg :: string
  AppID_cfg :: string

text \<open>The request of the name resolver, \<open>nr.ResolveRequest\<close>.\<close>

record ResolveRequest =
  ID :: string
  Namespace_rr :: string
  Port_rr :: int

text \<open>The messages of the status RPC, \<open>internalv1pb.ProxyStatusRequest\<close> and its response.\<close>

datatype APIVersion = APIVersion_V1

record ProxyStatusRequest =
  Ver :: APIVersion

record ProxyStatusResponse =
  Enabled_pb :: bool
  Port_pb :: int

datatype ClientConn = ClientConn nat

datatype Logger = Logger string

record url =
  Scheme :: string
  Host :: string
  Path :: string

record Request =
  Method :: string
  URL :: url
  Header :: "string \<rightharpoonup> string list"
  Body_req :: string

record ErrorResponse =
  ErrorCode :: string
  Message :: string

text \<open>
  Modelled from the spec: \<open>daprhttp.NewErrorResponse\<close> and the type \<open>ErrorResponse\<close> are
  in package \<open>pkg/http\<close>; the error body is a JSON object of an error code and a message.
\<close>

definition NewErrorResponse :: "string \<Rightarrow> string \<Rightarrow> ErrorResponse" where
  "NewErrorResponse errorCode message = \<lparr>ErrorCode = errorCode, Message = message\<rparr>"

text \<open>
  A response body is either the bytes \<open>json.Marshal\<close> gives for an \<open>ErrorResponse\<close>, kept
  as the value that was marshalled, or bytes that came from upstream.
\<close>

datatype body = JSON ErrorResponse | Bytes string

record Response =
  StatusCode :: int
  Header_res :: "string \<rightharpoonup> string list"
  Body :: body

record server =
  config :: ServerConfig
  monitor :: statusMonitor
  resolver :: "ResolveRequest \<Rightarrow> string \<times> error option"
  logger :: "Logger option"
  connectionCreatorFn ::
    "string \<Rightarrow> string \<Rightarrow> string \<Rightarrow> bool \<Rightarrow> bool \<Rightarrow> bool \<Rightarrow> ClientConn \<times> error option"

text \<open>
  What the package reaches through globals and imported packages: the status RPC of the
  generated client, \<open>http.DefaultTransport\<close>, and \<open>http.ListenAndServe\<close>, which
  returns only with an error (\<open>None\<close>: the listener is bound and the call serves).
\<close>

record world =
  proxyStatus :: "ClientConn \<Rightarrow> ProxyStatusRequest \<Rightarrow> ProxyStatusResponse \<times> error option"
  DefaultTransport :: "Request \<Rightarrow> Response option \<times> error option"
  ListenAndServe :: "string \<Rightarrow> error option"

datatype event =
    LogDebug string
  | ResolveID ResolveRequest
  | CreateConnection string string string bool bool bool
  | GetProxyStatus ClientConn ProxyStatusRequest
  | TransportRoundTrip Request

datatype 'a outcome = Returns 'a | Panics string

text \<open>The constructor sets four of the five fields; \<open>logger\<close> keeps its zero value, \<open>nil\<close>.\<close>

definition NewProxyServer ::
  "ServerConfig \<Rightarrow> statusMonitor \<Rightarrow> (ResolveRequest \<Rightarrow> string \<times> error option) \<Rightarrow>
   (string \<Rightarrow> string \<Rightarrow> string \<Rightarrow> bool \<Rightarrow> bool \<Rightarrow> bool \<Rightarrow> ClientConn \<times> error option) \<Rightarrow> server" where
  "NewProxyServer cfg mon res fn =
     \<lparr>config = cfg, monitor = mon, resolver = res, logger = None, connectionCreatorFn = fn\<rparr>"

text \<open>
  \<open>s.logger.Debugf\<close> and \<open>s.logger.Debug\<close>: \<open>logger.Logger\<close> is an interface, and a method
  call on a \<open>nil\<close> interface value panics. \<open>None\<close> is that panic.
\<close>

definition Debugf :: "Logger option \<Rightarrow> string \<Rightarrow> event list option" where
  "Debugf lg msg = (case lg of None \<Rightarrow> None | Some l \<Rightarrow> Some [LogDebug msg])"

definition Debug :: "Logger option \<Rightarrow> string \<Rightarrow> event list option" where
  "Debug lg msg = (case lg of None \<Rightarrow> None | Some l \<Rightarrow> Some [LogDebug msg])"

definition nilDereference :: string where
  "nilDereference = ''invalid memory address or nil pointer dereference''"

text \<open>The parameter \<open>code\<close> is not used: the literal \<open>400\<close> is the status code.\<close>

definition respondWithError :: "int \<Rightarrow> ErrorResponse \<Rightarrow> Response" where
  "respondWithError code e =
     \<lparr>StatusCode = 400,
      Header_res = [''Content-Type'' \<mapsto> [''application/json'']],
      Body = JSON e\<rparr>"

definition getRemoteProxyAddress ::
  "world \<Rightarrow> server \<Rightarrow> string \<Rightarrow> string \<Rightarrow> string \<Rightarrow> event list \<times> string \<times> error option" where
  "getRemoteProxyAddress w s addr appID namespace =
     (let (conn, err) = connectionCreatorFn s addr appID namespace False False False;
          t1 = [CreateConnection addr appID namespace False False False] in
      if err \<noteq> None then (t1, [], err)
      else
        (let req = \<lparr>Ver = APIVersion_V1\<rparr>;
             (st, err2) = proxyStatus w conn req;
             t2 = t1 @ [GetProxyStatus conn req] in
         if err2 \<noteq> None then (t2, [], err2)
         else if \<not> Enabled_pb st then (t2, [], Some (Error ''remote proxy is not enabled''))
         else
           (let parts = Split addr (CHR '':'');
                parts' = parts[length parts - 1 := fmt_d (Port_pb st)];
                combined = Join parts' '':''
            in (t2, combined, None))))"

type_synonym result = "(Response option \<times> error option) outcome"

definition roundTripLocal :: "world \<Rightarrow> server \<Rightarrow> Request \<Rightarrow> event list \<times> Request \<times> result" where
  "roundTripLocal w s req =
     (let req' = req\<lparr>URL := (URL req)\<lparr>Scheme := ''http'',
                   Host := ''localhost:'' @ fmt_d (ApplicationPort (config s))\<rparr>\<rparr>
      in ([TransportRoundTrip req'], req', Returns (DefaultTransport w req')))"

definition roundTripRemote ::
  "world \<Rightarrow> server \<Rightarrow> Request \<Rightarrow> resolvedAppID \<Rightarrow> event list \<times> Request \<times> result" where
  "roundTripRemote w s req appID =
     (let rreq = \<lparr>ID = AppID appID, Namespace_rr = Namespace appID,
                  Port_rr = ProxyPort (config s)\<rparr>;
          (addr, err) = resolver s rreq;
          t1 = [ResolveID rreq] in
      if err \<noteq> None then
        (let msg = NewErrorResponse ''ERR_UNRESOLVED_APPID''
                     (''the appid '' @ Original appID @ '' cannot be resolved to a destination'') in
         case Debugf (logger s)
                (''request destination app-id could not be resolved: '' @ Original appID) of
           None \<Rightarrow> (t1, req, Panics nilDereference)
         | Some lg \<Rightarrow> (t1 @ lg, req, Returns (Some (respondWithError 400 msg), None)))
      else
        (let (t2, addr', err') = getRemoteProxyAddress w s addr (AppID appID) (Namespace appID) in
         if err' \<noteq> None then
           (let msg = NewErrorResponse ''ERR_INTERNAL'' ''DERP'' in
            case Debug (logger s) ''DERP'' of
              None \<Rightarrow> (t1 @ t2, req, Panics nilDereference)
            | Some lg \<Rightarrow> (t1 @ t2 @ lg, req, Returns (Some (respondWithError 500 msg), None)))
         else
           (let req' = req\<lparr>URL := (URL req)\<lparr>Scheme := ''http'', Host := addr'\<rparr>\<rparr>
            in (t1 @ t2 @ [TransportRoundTrip req'], req', Returns (DefaultTransport w req')))))"

definition RoundTrip :: "world \<Rightarrow> server \<Rightarrow> Request \<Rightarrow> event list \<times> Request \<times> result" where
  "RoundTrip w s req =
     (let (appIDHeader, ok) =
            (case Header req ''Destination-App-Id'' of
               None \<Rightarrow> ([], False)
             | Some v \<Rightarrow> (v, True)) in
      if \<not> ok \<or> length appIDHeader \<noteq> 1 \<or> appIDHeader ! 0 = [] then
        (let msg = NewErrorResponse ''ERR_MISSING_APPID''
                     ''the appid must be specified using the Destination-App-Id header'' in
         case Debugf (logger s) ''request did not contain Destination-App-Id header'' of
           None \<Rightarrow> ([], req, Panics nilDereference)
         | Some lg \<Rightarrow> (lg, req, Returns (Some (respondWithError 400 msg), None)))
      else
        (let (appID, err) = resolveTargetAppID (Namespace_cfg (config s)) (appIDHeader ! 0) in
         if err \<noteq> None then
           (let msg = NewErrorResponse ''ERR_MISSING_APPID''
                        (''the appid '' @ appIDHeader ! 0 @ '' is invalid'') in
            case Debugf (logger s)
                   (''request contained invalid Destination-App-Id header: '' @ appIDHeader ! 0) of
              None \<Rightarrow> ([], req, Panics nilDereference)
            | Some lg \<Rightarrow> (lg, req, Returns (Some (respondWithError 400 msg), None)))
         else if AppID appID = AppID_cfg (config s) \<and> Namespace appID = Namespace_cfg (config s)
           then roundTripLocal w s req
         else roundTripRemote w s req appID))"

text \<open>The calls that go upstream over the network, as opposed to log lines.\<close>

fun isResolve :: "event \<Rightarrow> bool" where
  "isResolve (ResolveID r) = True"
| "isResolve e = False"

fun isDiscovery :: "event \<Rightarrow> bool" where
  "isDiscovery (CreateConnection a i n x y z) = True"
| "isDiscovery e = False"

fun isStatusQuery :: "event \<Rightarrow> bool" where
  "isStatusQuery (GetProxyStatus c r) = True"
| "isStatusQuery e = False"

fun isForward :: "event \<Rightarrow> bool" where
  "isForward (TransportRoundTrip r) = True"
| "isForward e = False"

fun isUpstream :: "event \<Rightarrow> bool" where
  "isUpstream (LogDebug m) = False"
| "isUpstream e = True"

subsection \<open>Starting the server\<close>

text \<open>
  \<open>StartNonBlocking\<close> builds the reverse proxy, starts a goroutine and returns \<open>nil\<close>.
  The goroutine runs its calls in program order: \<open>SetStatus\<close>, then
  \<open>http.ListenAndServe\<close>, and, when that returns an error, \<open>s.logger.Fatalf\<close>. The
  program counter says which call is next. \<open>listening\<close> is set when \<open>ListenAndServe\<close>
  has bound the listener. \<open>Fatalf\<close> ends the process: on a \<open>nil\<close> logger the method call
  panics in the goroutine, and on a logger it writes the message and exits.
\<close>

datatype pc = AtSetStatus | AtListenAndServe | Serving | Exited string | Panicked string

record process =
  srv :: server
  listening :: bool
  next_call :: pc

definition Fatalf :: "Logger option \<Rightarrow> string \<Rightarrow> pc" where
  "Fatalf lg msg = (case lg of None \<Rightarrow> Panicked nilDereference | Some l \<Rightarrow> Exited msg)"

text \<open>The method \<open>Error()\<close> of an error value, which the verb \<open>%v\<close> prints.\<close>

fun errorText :: "error \<Rightarrow> string" where
  "errorText (Error m) = m"

definition StartNonBlocking :: "server \<Rightarrow> process \<times> error option" where
  "StartNonBlocking s = (\<lparr>srv = s, listening = False, next_call = AtSetStatus\<rparr>, None)"

definition goroutineStep :: "world \<Rightarrow> process \<Rightarrow> process" where
  "goroutineStep w p =
     (case next_call p of
        AtSetStatus \<Rightarrow>
          p\<lparr>srv := (srv p)\<lparr>monitor :=
                 SetStatus (monitor (srv p))
                   \<lparr>Enabled = True, Port = ProxyPort (config (srv p))\<rparr>\<rparr>,
            next_call := AtListenAndServe\<rparr>
      | AtListenAndServe \<Rightarrow>
          (case ListenAndServe w (CHR '':'' # fmt_d (ProxyPort (config (srv p)))) of
             None \<Rightarrow> p\<lparr>listening := True, next_call := Serving\<rparr>
           | Some err \<Rightarrow>
               p\<lparr>next_call := Fatalf (logger (srv p)) (''proxy serve error: '' @ errorText err)\<rparr>)
      | Serving \<Rightarrow> p
      | Exited msg \<Rightarrow> p
      | Panicked msg \<Rightarrow> p)"

subsection \<open>A concrete server, world and request\<close>

text \<open>
  A proxy on port 3500 for the application \<open>orders\<close> in namespace \<open>default\<close>, listening on
  8080. The resolver sends every identity to \<open>10.0.0.5:3500\<close>; the peer there reports
  port 9000 and the given \<open>enabled\<close> flag.
\<close>

definition exampleConfig :: ServerConfig where
  "exampleConfig =
     \<lparr>ProxyPort = 3500, ApplicationPort = 8080,
      Namespace_cfg = ''default'', AppID_cfg = ''orders''\<rparr>"

definition exampleResolver :: "ResolveRequest \<Rightarrow> string \<times> error option" where
  "exampleResolver r = (''10.0.0.5:3500'', None)"

definition exampleConnect ::
  "string \<Rightarrow> string \<Rightarrow> string \<Rightarrow> bool \<Rightarrow> bool \<Rightarrow> bool \<Rightarrow> ClientConn \<times> error option" where
  "exampleConnect addr appID namespace skipTLS recreateIfExists enableSSL = (ClientConn 1, None)"

definition exampleServer :: "Logger option \<Rightarrow> server" where
  "exampleServer lg =
     \<lparr>config = exampleConfig, monitor = NewStatusMonitor, resolver = exampleResolver,
      logger = lg, connectionCreatorFn = exampleConnect\<rparr>"

definition exampleWorld :: "bool \<Rightarrow> error option \<Rightarrow> world" where
  "exampleWorld enabled listenResult =
     \<lparr>proxyStatus = (\<lambda>conn req. (\<lparr>Enabled_pb = enabled, Port_pb = 9000\<rparr>, None)),
      DefaultTransport =
        (\<lambda>req. (Some \<lparr>StatusCode = 200, Header_res = Map.empty, Body = Bytes ''ok''\<rparr>, None)),
      ListenAndServe = (\<lambda>addr. listenResult)\<rparr>"

definition exampleRequest :: "(string \<rightharpoonup> string list) \<Rightarrow> Request" where
  "exampleRequest hdr =
     \<lparr>Method = ''GET'',
      URL = \<lparr>Scheme = [], Host = ''localhost:3500'', Path = ''/v1/items''\<rparr>,
      Header = hdr, Body_req = []\<rparr>"

section \<open>Properties\<close>

subsection \<open>Splitting and joining\<close>

lemma splitAcc_no_sep:
  "sep \<notin> set s \<Longrightarrow> splitAcc sep cur s = [rev cur @ s]"
  by (induction s arbitrary: cur) auto

lemma splitAcc_at_sep:
  "sep \<notin> set a \<Longrightarrow> splitAcc sep cur (a @ sep # b) = (rev cur @ a) # splitAcc sep [] b"
  by (induction a arbitrary: cur) auto

lemma length_splitAcc:
  "length (splitAcc sep cur s) = Suc (count_list s sep)"
  by (induction s arbitrary: cur) auto

lemma length_Split: "length (Split s sep) = Suc (count_list s sep)"
  by (simp add: Split_def length_splitAcc)

lemma Split_no_sep: "sep \<notin> set s \<Longrightarrow> Split s sep = [s]"
  by (simp add: Split_def splitAcc_no_sep)

lemma Split_at_sep:
  "sep \<notin> set a \<Longrightarrow> Split (a @ sep # b) sep = a # Split b sep"
  using splitAcc_at_sep [of sep a "[]" b] by (simp add: Split_def)

lemma splitAcc_append_sep:
  "splitAcc sep cur (h @ sep # p) = splitAcc sep cur h @ splitAcc sep [] p"
  by (induction h arbitrary: cur) auto

lemma splitAcc_not_Nil: "splitAcc sep cur s \<noteq> []"
  by (induction s arbitrary: cur) auto

lemma Join_Cons: "ys \<noteq> [] \<Longrightarrow> Join (x # ys) sep = x @ sep @ Join ys sep"
  by (cases ys) auto

lemma Join_snoc: "xs \<noteq> [] \<Longrightarrow> Join (xs @ [v]) sep = Join xs sep @ sep @ v"
  by (induction xs sep rule: Join.induct) auto

lemma Join_splitAcc: "Join (splitAcc sep cur s) [sep] = rev cur @ s"
  by (induction s arbitrary: cur) (auto simp: Join_Cons splitAcc_not_Nil)

lemma Join_Split: "Join (Split s sep) [sep] = s"
  by (simp add: Split_def Join_splitAcc)

lemma Split_host_port:
  "sep \<notin> set p \<Longrightarrow> Split (h @ sep # p) sep = Split h sep @ [p]"
  by (simp add: Split_def splitAcc_append_sep splitAcc_no_sep)

lemma replace_last_segment:
  assumes "sep \<notin> set p"
  shows "Join ((Split (h @ sep # p) sep)[length (Split (h @ sep # p) sep) - 1 := v]) [sep]
         = h @ sep # v"
proof -
  have parts: "Split (h @ sep # p) sep = Split h sep @ [p]"
    using assms by (rule Split_host_port)
  have ne: "Split h sep \<noteq> []"
    by (simp add: Split_def splitAcc_not_Nil)
  have "(Split h sep @ [p])[length (Split h sep @ [p]) - 1 := v] = Split h sep @ [v]"
    by simp
  then show ?thesis
    using ne by (simp add: parts Join_snoc Join_Split)
qed

subsection \<open>Decimal formatting\<close>

lemma decimal_digit: "n < 10 \<Longrightarrow> decimal n = [digit n]"
  by (simp add: decimal.simps)

lemma decimal_more: "10 \<le> n \<Longrightarrow> decimal n = decimal (n div 10) @ [digit n]"
  by (subst decimal.simps) simp

lemmas fmt_d_eval = fmt_d_def decimal_digit decimal_more digit_def

subsection \<open>The identity parser\<close>

text \<open>
  Claim C2. Parsing a raw identity string with the caller's namespace \<open>ns\<close>: a string
  with no dot gives the original, \<open>ns\<close> and the string itself as identity; a string with
  exactly one dot gives the original, the segment after the dot as namespace and the
  segment before the dot as identity; a string with two or more dots gives the zero
  value and an error whose message carries the raw string.
\<close>

theorem resolveTargetAppID_spec:
  "(count_list raw (CHR ''.'') = 0 \<longrightarrow>
      resolveTargetAppID ns raw = (\<lparr>Original = raw, Namespace = ns, AppID = raw\<rparr>, None)) \<and>
   (count_list raw (CHR ''.'') = 1 \<longrightarrow>
      resolveTargetAppID ns raw =
        (\<lparr>Original = raw,
          Namespace = tl (dropWhile (\<lambda>c. c \<noteq> CHR ''.'') raw),
          AppID = takeWhile (\<lambda>c. c \<noteq> CHR ''.'') raw\<rparr>, None)) \<and>
   (2 \<le> count_list raw (CHR ''.'') \<longrightarrow>
      resolveTargetAppID ns raw = (zeroResolvedAppID, Some (Error (''invalid app id '' @ raw))))"
proof (intro conjI impI)
  assume "count_list raw (CHR ''.'') = 0"
  then show "resolveTargetAppID ns raw = (\<lparr>Original = raw, Namespace = ns, AppID = raw\<rparr>, None)"
    by (simp add: resolveTargetAppID_def length_Split)
next
  assume one: "count_list raw (CHR ''.'') = 1"
  let ?a = "takeWhile (\<lambda>c. c \<noteq> CHR ''.'') raw"
  let ?r = "dropWhile (\<lambda>c. c \<noteq> CHR ''.'') raw"
  have "CHR ''.'' \<in> set raw"
  proof (rule ccontr)
    assume "CHR ''.'' \<notin> set raw"
    then have "count_list raw (CHR ''.'') = 0" by (simp add: count_list_0_iff)
    with one show False by simp
  qed
  then have ne: "?r \<noteq> []" by (simp add: dropWhile_eq_Nil_conv)
  then have "hd ?r = CHR ''.''" using hd_dropWhile [of "\<lambda>c. c \<noteq> CHR ''.''" raw] by simp
  with ne have r: "?r = CHR ''.'' # tl ?r" by (cases ?r) simp_all
  have "raw = ?a @ ?r" by simp
  with r have raw: "raw = ?a @ CHR ''.'' # tl ?r" by simp
  have a: "CHR ''.'' \<notin> set ?a"
    by (auto dest: set_takeWhileD)
  have "count_list raw (CHR ''.'') = count_list (?a @ CHR ''.'' # tl ?r) (CHR ''.'')"
    using raw by simp
  then have b: "CHR ''.'' \<notin> set (tl ?r)"
    using one a by (simp add: count_list_0_iff)
  have "Split (?a @ CHR ''.'' # tl ?r) (CHR ''.'') = [?a, tl ?r]"
    by (simp add: Split_at_sep [OF a] Split_no_sep [OF b])
  with raw have "Split raw (CHR ''.'') = [?a, tl ?r]" by simp
  then show "resolveTargetAppID ns raw =
        (\<lparr>Original = raw, Namespace = tl ?r, AppID = ?a\<rparr>, None)"
    by (simp add: resolveTargetAppID_def)
next
  assume "2 \<le> count_list raw (CHR ''.'')"
  then show "resolveTargetAppID ns raw = (zeroResolvedAppID, Some (Error (''invalid app id '' @ raw)))"
    by (simp add: resolveTargetAppID_def length_Split)
qed

theorem resolveTargetAppID_spec_witness:
  "resolveTargetAppID ''ns'' ''app'' = (\<lparr>Original = ''app'', Namespace = ''ns'', AppID = ''app''\<rparr>, None) \<and>
   resolveTargetAppID ''ns'' ''app.prod'' =
      (\<lparr>Original = ''app.prod'', Namespace = ''prod'', AppID = ''app''\<rparr>, None) \<and>
   resolveTargetAppID ''ns'' ''a.b.c'' = (zeroResolvedAppID, Some (Error ''invalid app id a.b.c''))"
  using resolveTargetAppID_spec [of "''app''" "''ns''"]
        resolveTargetAppID_spec [of "''app.prod''" "''ns''"]
        resolveTargetAppID_spec [of "''a.b.c''" "''ns''"]
  by simp

subsection \<open>The transport cache\<close>

lemma Get_hit:
  "transports (thePool st) = Some m \<Longrightarrow> m addr = Some t \<Longrightarrow> Get st addr ap = (st, t, None)"
  by (simp add: Get_def)

lemma Get_result_cached:
  "transports (thePool (fst (Get st addr ap))) \<noteq> None \<and>
   poolMap (fst (Get st addr ap)) addr = Some (fst (snd (Get st addr ap)))"
  by (auto simp: Get_def poolMap_def Let_def split: option.splits)

lemma Get_keeps_entry:
  assumes "transports (thePool st) \<noteq> None" and "poolMap st addr = Some t"
  shows "transports (thePool (fst (Get st a ap))) \<noteq> None \<and> poolMap (fst (Get st a ap)) addr = Some t"
  using assms by (auto simp: Get_def poolMap_def Let_def split: option.splits)

lemma Gets_keeps_entry:
  "transports (thePool st) \<noteq> None \<Longrightarrow> poolMap st addr = Some t \<Longrightarrow>
   transports (thePool (Gets st calls)) \<noteq> None \<and> poolMap (Gets st calls) addr = Some t"
proof (induction calls arbitrary: st)
  case Nil
  then show ?case by simp
next
  case (Cons c calls)
  obtain a ap where c: "c = (a, ap)" by (cases c)
  from Get_keeps_entry [OF Cons.prems, of a ap] Cons.IH [of "fst (Get st a ap)"]
  show ?case by (simp add: c)
qed

lemma Get_keeps_object:
  "t < length (heap st) \<Longrightarrow>
   t < length (heap (fst (Get st a ap))) \<and> heap (fst (Get st a ap)) ! t = heap st ! t"
  by (auto simp: Get_def Let_def nth_append split: option.splits)

lemma Gets_keeps_object:
  "t < length (heap st) \<Longrightarrow>
   t < length (heap (Gets st calls)) \<and> heap (Gets st calls) ! t = heap st ! t"
proof (induction calls arbitrary: st)
  case Nil
  then show ?case by simp
next
  case (Cons c calls)
  obtain a ap where c: "c = (a, ap)" by (cases c)
  from Get_keeps_object [OF Cons.prems, of a ap] Cons.IH [of "fst (Get st a ap)"]
  show ?case by (simp add: c)
qed

lemma Get_miss_object:
  "poolMap st addr = None \<Longrightarrow>
   fst (snd (Get st addr ap)) = length (heap st) \<and>
   length (heap st) < length (heap (fst (Get st addr ap))) \<and>
   heap (fst (Get st addr ap)) ! length (heap st) = \<lparr>DialAddr = addr\<rparr>"
  by (auto simp: Get_def poolMap_def Let_def split: option.splits)

lemma onePerKey_Get: "onePerKey st \<Longrightarrow> onePerKey (fst (Get st a ap))"
  by (auto simp: onePerKey_def Get_def poolMap_def Let_def split: option.splits)

lemma onePerKey_Gets: "onePerKey st \<Longrightarrow> onePerKey (Gets st calls)"
proof (induction calls arbitrary: st)
  case Nil
  then show ?case by simp
next
  case (Cons c calls)
  obtain a ap where c: "c = (a, ap)" by (cases c)
  from onePerKey_Get [OF Cons.prems, of a ap] Cons.IH [of "fst (Get st a ap)"]
  show ?case by (simp add: c)
qed

lemma onePerKey_newStore: "onePerKey newStore"
  by (simp add: onePerKey_def newStore_def)

text \<open>
  Claim C8. The cache holds at most one connection factory per address. Take any store,
  a call \<open>Get addr r\<close> on it that returns the pointer \<open>t\<close>, and any run of further
  calls of \<open>Get\<close> after it. Then a later \<open>Get addr r'\<close>, for any \<open>r'\<close>, returns the
  same pointer \<open>t\<close> and leaves the store as it is. When the first call created the
  factory (the address was not a key), \<open>t\<close> is a fresh pointer, and the object behind it
  is the factory dialling \<open>addr\<close> both right after the first call and after the run.
  In every store reached from a new process, no two factories dial the same address.
\<close>

theorem pool_one_factory_per_address:
  "(let (st1, t, e) = Get st addr r; st2 = Gets st1 calls in
      Get st2 addr r' = (st2, t, None) \<and>
      (poolMap st addr = None \<longrightarrow>
         t = length (heap st) \<and> heap st1 ! t = \<lparr>DialAddr = addr\<rparr> \<and>
         heap st2 ! t = \<lparr>DialAddr = addr\<rparr>)) \<and>
   distinct (map DialAddr (heap (Gets newStore calls0)))"
proof -
  obtain st1 t e where g: "Get st addr r = (st1, t, e)"
    by (cases "Get st addr r") auto
  define st2 where "st2 = Gets st1 calls"
  have c1: "transports (thePool st1) \<noteq> None \<and> poolMap st1 addr = Some t"
    using Get_result_cached [of st addr r] by (simp add: g)
  then have c2: "transports (thePool st2) \<noteq> None \<and> poolMap st2 addr = Some t"
    unfolding st2_def using Gets_keeps_entry [of st1 addr t calls] by simp
  then obtain m where m: "transports (thePool st2) = Some m" "m addr = Some t"
    by (auto simp: poolMap_def)
  have hit: "Get st2 addr r' = (st2, t, None)"
    using m by (rule Get_hit)
  have fresh: "t = length (heap st) \<and> heap st1 ! t = \<lparr>DialAddr = addr\<rparr> \<and>
      heap st2 ! t = \<lparr>DialAddr = addr\<rparr>" if miss: "poolMap st addr = None"
  proof -
    from Get_miss_object [OF miss, of r]
    have t: "t = length (heap st)" and lt: "t < length (heap st1)"
      and obj: "heap st1 ! t = \<lparr>DialAddr = addr\<rparr>"
      by (simp_all add: g)
    from Gets_keeps_object [OF lt, of calls] obj
    have "heap st2 ! t = \<lparr>DialAddr = addr\<rparr>" by (simp add: st2_def)
    with t obj show ?thesis by simp
  qed
  have "onePerKey (Gets newStore calls0)"
    using onePerKey_newStore by (rule onePerKey_Gets)
  then have d: "distinct (map DialAddr (heap (Gets newStore calls0)))"
    by (simp add: onePerKey_def)
  from hit fresh d show ?thesis
    unfolding g st2_def Let_def by auto
qed

theorem pool_one_factory_per_address_witness:
  "poolMap newStore ''host:1'' = None \<and>
   fst (snd (Get newStore ''host:1'' (\<lambda>k. (k, None)))) = 0 \<and>
   fst (snd (Get (Gets (fst (Get newStore ''host:1'' (\<lambda>k. (k, None))))
                    [(''other:2'', \<lambda>k. (k, None)), (''host:1'', \<lambda>k. (k, None))])
              ''host:1'' (\<lambda>k. ([], Some (Error ''unused''))))) = 0 \<and>
   heap (Gets (fst (Get newStore ''host:1'' (\<lambda>k. (k, None))))
           [(''other:2'', \<lambda>k. (k, None)), (''host:1'', \<lambda>k. (k, None))]) ! 0
     = \<lparr>DialAddr = ''host:1''\<rparr> \<and>
   distinct (map DialAddr (heap (Gets newStore
      [(''host:1'', \<lambda>k. (k, None)), (''host:1'', \<lambda>k. (k, None)), (''other:2'', \<lambda>k. (k, None))])))"
proof -
  have miss: "poolMap newStore ''host:1'' = None"
    by (simp add: poolMap_def newStore_def)
  have first: "fst (snd (Get newStore ''host:1'' (\<lambda>k. (k, None)))) = 0"
    by (simp add: Get_def newStore_def)
  from pool_one_factory_per_address
    [where st = newStore and addr = "''host:1''" and r = "\<lambda>k. (k, None)"
       and calls = "[(''other:2'', \<lambda>k. (k, None)), (''host:1'', \<lambda>k. (k, None))]"
       and r' = "\<lambda>k. ([], Some (Error ''unused''))"
       and ?calls0.0 = "[(''host:1'', \<lambda>k. (k, None)), (''host:1'', \<lambda>k. (k, None)),
                        (''other:2'', \<lambda>k. (k, None))]"]
    miss first
  show ?thesis
    by (simp add: Let_def split_beta)
qed

text \<open>
  Claim C10. For every store and address, \<open>Get\<close> returns the same store, pointer and
  error for any two \<open>addressProcessor\<close> arguments, and the error it returns is \<open>nil\<close>.
\<close>

theorem pool_Get_ignores_addressProcessor:
  "Get st addr ap1 = Get st addr ap2 \<and> snd (snd (Get st addr ap)) = None"
  by (simp add: Get_def Let_def split: option.split)


theorem pool_Get_ignores_addressProcessor_witness:
  "Get newStore ''host:1'' (\<lambda>k. (k, None)) = Get newStore ''host:1'' (\<lambda>k. ([], Some (Error ''unused''))) \<and>
   snd (snd (Get newStore ''host:1'' (\<lambda>k. (k, None)))) = None"
  by (rule pool_Get_ignores_addressProcessor)

subsection \<open>The dispatcher\<close>

lemma RoundTrip_parsed:
  assumes "Header req ''Destination-App-Id'' = Some [v]" and "v \<noteq> []"
    and "resolveTargetAppID (Namespace_cfg (config s)) v = (appID, None)"
  shows "RoundTrip w s req =
     (if AppID appID = AppID_cfg (config s) \<and> Namespace appID = Namespace_cfg (config s)
      then roundTripLocal w s req else roundTripRemote w s req appID)"
  using assms by (simp add: RoundTrip_def)

lemma getRemoteProxyAddress_trace:
  "fst (getRemoteProxyAddress w s addr i n) = [CreateConnection addr i n False False False] \<or>
   fst (getRemoteProxyAddress w s addr i n) =
     [CreateConnection addr i n False False False,
      GetProxyStatus (fst (connectionCreatorFn s addr i n False False False)) \<lparr>Ver = APIVersion_V1\<rparr>]"
  by (simp add: getRemoteProxyAddress_def Let_def split_beta)

lemma example_header:
  "Header (exampleRequest [''Destination-App-Id'' \<mapsto> [v]]) ''Destination-App-Id'' = Some [v]"
  by (simp add: exampleRequest_def)

lemma example_parse_remote:
  "resolveTargetAppID (Namespace_cfg (config (exampleServer lg))) ''cart.prod'' =
     (\<lparr>Original = ''cart.prod'', Namespace = ''prod'', AppID = ''cart''\<rparr>, None)"
  by (simp add: resolveTargetAppID_def Split_def)

lemma getRemoteProxyAddress_calls:
  "fst (getRemoteProxyAddress w s addr i n) =
     CreateConnection addr i n False False False #
     (if snd (connectionCreatorFn s addr i n False False False) = None
      then [GetProxyStatus (fst (connectionCreatorFn s addr i n False False False))
              \<lparr>Ver = APIVersion_V1\<rparr>]
      else [])"
  by (simp add: getRemoteProxyAddress_def Let_def split_beta)

lemma roundTripRemote_forwards:
  assumes "resolver s \<lparr>ID = AppID appID, Namespace_rr = Namespace appID,
                       Port_rr = ProxyPort (config s)\<rparr> = (addr, None)"
    and "getRemoteProxyAddress w s addr (AppID appID) (Namespace appID) = (d, addr', None)"
  shows "fst (roundTripRemote w s req appID) =
           ResolveID \<lparr>ID = AppID appID, Namespace_rr = Namespace appID,
                       Port_rr = ProxyPort (config s)\<rparr> # d @
           [TransportRoundTrip (req\<lparr>URL := (URL req)\<lparr>Scheme := ''http'', Host := addr'\<rparr>\<rparr>)]"
  using assms by (simp add: roundTripRemote_def Let_def)

lemma roundTripRemote_rejects:
  assumes "resolver s \<lparr>ID = AppID appID, Namespace_rr = Namespace appID,
                       Port_rr = ProxyPort (config s)\<rparr> = (addr, None)"
    and "getRemoteProxyAddress w s addr (AppID appID) (Namespace appID) = (d, addr', Some e)"
  shows "fst (roundTripRemote w s req appID) =
           ResolveID \<lparr>ID = AppID appID, Namespace_rr = Namespace appID,
                       Port_rr = ProxyPort (config s)\<rparr> # d @
           (case logger s of None \<Rightarrow> [] | Some l \<Rightarrow> [LogDebug ''DERP''])"
  using assms by (simp add: roundTripRemote_def Let_def Debug_def split: option.split)

lemma roundTripRemote_unresolved:
  assumes "snd (resolver s \<lparr>ID = AppID appID, Namespace_rr = Namespace appID,
                       Port_rr = ProxyPort (config s)\<rparr>) \<noteq> None"
  shows "fst (roundTripRemote w s req appID) =
           ResolveID \<lparr>ID = AppID appID, Namespace_rr = Namespace appID,
                       Port_rr = ProxyPort (config s)\<rparr> #
           (case logger s of None \<Rightarrow> []
            | Some l \<Rightarrow> [LogDebug (''request destination app-id could not be resolved: ''
                                     @ Original appID)])"
  using assms
  by (auto simp: roundTripRemote_def Let_def Debugf_def split_beta split: option.splits)

text \<open>
  Claim C3. A request whose \<open>Destination-App-Id\<close> header has one non-empty value that
  parses to this process's own \<open>AppID\<close> and \<open>Namespace\<close> is rewritten to scheme
  \<open>http\<close> and host \<open>localhost:<ApplicationPort>\<close> and handed to the default transport,
  whose result is returned as it is. The only event of the call is that forward: the name
  resolver and the connection creator of peer discovery are not called.
\<close>

theorem RoundTrip_local:
  assumes "Header req ''Destination-App-Id'' = Some [v]" and "v \<noteq> []"
    and "resolveTargetAppID (Namespace_cfg (config s)) v = (appID, None)"
    and "AppID appID = AppID_cfg (config s)" and "Namespace appID = Namespace_cfg (config s)"
  shows "(let req' = req\<lparr>URL := (URL req)\<lparr>Scheme := ''http'',
                     Host := ''localhost:'' @ fmt_d (ApplicationPort (config s))\<rparr>\<rparr> in
          RoundTrip w s req = ([TransportRoundTrip req'], req', Returns (DefaultTransport w req'))) \<and>
         filter isResolve (fst (RoundTrip w s req)) = [] \<and>
         filter isDiscovery (fst (RoundTrip w s req)) = []"
  using assms by (simp add: RoundTrip_parsed [OF assms(1-3)] roundTripLocal_def Let_def)

theorem RoundTrip_local_witness:
  "RoundTrip (exampleWorld True None) (exampleServer None)
     (exampleRequest [''Destination-App-Id'' \<mapsto> [''orders'']]) =
   ([TransportRoundTrip
       ((exampleRequest [''Destination-App-Id'' \<mapsto> [''orders'']])
          \<lparr>URL := \<lparr>Scheme = ''http'', Host = ''localhost:8080'', Path = ''/v1/items''\<rparr>\<rparr>)],
    (exampleRequest [''Destination-App-Id'' \<mapsto> [''orders'']])
       \<lparr>URL := \<lparr>Scheme = ''http'', Host = ''localhost:8080'', Path = ''/v1/items''\<rparr>\<rparr>,
    Returns (Some \<lparr>StatusCode = 200, Header_res = Map.empty, Body = Bytes ''ok''\<rparr>, None))"
proof -
  have h: "Header (exampleRequest [''Destination-App-Id'' \<mapsto> [''orders'']]) ''Destination-App-Id''
             = Some [''orders'']"
    by (simp add: exampleRequest_def)
  have p: "resolveTargetAppID (Namespace_cfg (config (exampleServer None))) ''orders'' =
             (\<lparr>Original = ''orders'', Namespace = ''default'', AppID = ''orders''\<rparr>, None)"
    by (simp add: resolveTargetAppID_def Split_def exampleServer_def exampleConfig_def)
  from RoundTrip_local [OF h _ p, of "exampleWorld True None"]
  show ?thesis
    by (simp add: exampleServer_def exampleConfig_def exampleWorld_def exampleRequest_def
        fmt_d_eval Let_def)
qed


text \<open>
  Claim C4. A request whose header parses to an identity other than the local
  \<open>(AppID, Namespace)\<close> calls the name resolver first and exactly once; when the resolver
  fails, that is the only upstream call. When the resolver returns no error, peer
  discovery runs next and exactly once: the connection to the resolved address and, when
  the connection succeeds, one status query on it, and these are the whole trace of
  \<open>getRemoteProxyAddress\<close>. When discovery succeeds, the trace is the resolution, the
  calls of discovery, and then one forward, to the address that discovery returned; when
  discovery fails, the upstream calls are the resolution and the calls of discovery, and
  there is no forward. So no forward comes before the resolution or before any call of
  discovery, and none of them is repeated.
\<close>

theorem RoundTrip_remote_order:
  assumes "Header req ''Destination-App-Id'' = Some [v]" and "v \<noteq> []"
    and "resolveTargetAppID (Namespace_cfg (config s)) v = (appID, None)"
    and "\<not> (AppID appID = AppID_cfg (config s) \<and> Namespace appID = Namespace_cfg (config s))"
  shows "(let rreq = \<lparr>ID = AppID appID, Namespace_rr = Namespace appID,
                      Port_rr = ProxyPort (config s)\<rparr>;
              tr = fst (RoundTrip w s req) in
          take 1 tr = [ResolveID rreq] \<and>
          length (filter isResolve tr) = 1 \<and>
          (snd (resolver s rreq) \<noteq> None \<longrightarrow> filter isUpstream tr = [ResolveID rreq]) \<and>
          (snd (resolver s rreq) = None \<longrightarrow>
             (let addr = fst (resolver s rreq);
                  cc = connectionCreatorFn s addr (AppID appID) (Namespace appID) False False False;
                  d = CreateConnection addr (AppID appID) (Namespace appID) False False False #
                      (if snd cc = None then [GetProxyStatus (fst cc) \<lparr>Ver = APIVersion_V1\<rparr>]
                       else []);
                  r = getRemoteProxyAddress w s addr (AppID appID) (Namespace appID) in
              fst r = d \<and>
              (snd (snd r) = None \<longrightarrow>
                 tr = ResolveID rreq # d @
                      [TransportRoundTrip
                         (req\<lparr>URL := (URL req)\<lparr>Scheme := ''http'', Host := fst (snd r)\<rparr>\<rparr>)]) \<and>
              (snd (snd r) \<noteq> None \<longrightarrow>
                 filter isUpstream tr = ResolveID rreq # d \<and> filter isForward tr = []) \<and>
              take 2 tr = [ResolveID rreq,
                           CreateConnection addr (AppID appID) (Namespace appID)
                             False False False] \<and>
              length (filter isDiscovery tr) = 1 \<and>
              length (filter isStatusQuery tr) \<le> 1 \<and>
              length (filter isForward tr) \<le> 1)))"
proof -
  let ?rreq = "\<lparr>ID = AppID appID, Namespace_rr = Namespace appID,
                 Port_rr = ProxyPort (config s)\<rparr>"
  have rt: "RoundTrip w s req = roundTripRemote w s req appID"
    using assms(4) by (auto simp: RoundTrip_parsed [OF assms(1-3)])
  show ?thesis
  proof (cases "snd (resolver s ?rreq) = None")
    case True
    let ?addr = "fst (resolver s ?rreq)"
    let ?r = "getRemoteProxyAddress w s ?addr (AppID appID) (Namespace appID)"
    from True have res: "resolver s ?rreq = (?addr, None)"
      by (metis prod.collapse)
    have d: "fst ?r =
        CreateConnection ?addr (AppID appID) (Namespace appID) False False False #
        (if snd (connectionCreatorFn s ?addr (AppID appID) (Namespace appID) False False False) = None
         then [GetProxyStatus
                 (fst (connectionCreatorFn s ?addr (AppID appID) (Namespace appID) False False False))
                 \<lparr>Ver = APIVersion_V1\<rparr>]
         else [])"
      by (rule getRemoteProxyAddress_calls)
    show ?thesis
    proof (cases "snd (snd ?r)")
      case None
      then have g: "?r = (fst ?r, fst (snd ?r), None)"
        by (metis prod.collapse)
      have "fst (roundTripRemote w s req appID) =
              ResolveID ?rreq # fst ?r @
              [TransportRoundTrip (req\<lparr>URL := (URL req)\<lparr>Scheme := ''http'', Host := fst (snd ?r)\<rparr>\<rparr>)]"
        using res g by (rule roundTripRemote_forwards)
      then show ?thesis
        using True None by (simp add: rt d Let_def)
    next
      case (Some e)
      then have g: "?r = (fst ?r, fst (snd ?r), Some e)"
        by (metis prod.collapse)
      have "fst (roundTripRemote w s req appID) =
              ResolveID ?rreq # fst ?r @ (case logger s of None \<Rightarrow> [] | Some l \<Rightarrow> [LogDebug ''DERP''])"
        using res g by (rule roundTripRemote_rejects)
      then show ?thesis
        using True Some by (simp add: rt d Let_def split: option.split)
    qed
  next
    case False
    from roundTripRemote_unresolved [OF False, of w req]
    show ?thesis
      using False by (simp add: rt Let_def split: option.split)
  qed
qed

theorem RoundTrip_remote_order_witness:
  "fst (RoundTrip (exampleWorld True None) (exampleServer None)
          (exampleRequest [''Destination-App-Id'' \<mapsto> [''cart.prod'']])) =
     [ResolveID \<lparr>ID = ''cart'', Namespace_rr = ''prod'', Port_rr = 3500\<rparr>,
      CreateConnection ''10.0.0.5:3500'' ''cart'' ''prod'' False False False,
      GetProxyStatus (ClientConn 1) \<lparr>Ver = APIVersion_V1\<rparr>,
      TransportRoundTrip
        ((exampleRequest [''Destination-App-Id'' \<mapsto> [''cart.prod'']])
           \<lparr>URL := \<lparr>Scheme = ''http'', Host = ''10.0.0.5:9000'', Path = ''/v1/items''\<rparr>\<rparr>)]"
proof -
  have remote: "\<not> (AppID \<lparr>Original = ''cart.prod'', Namespace = ''prod'', AppID = ''cart''\<rparr>
                     = AppID_cfg (config (exampleServer None)) \<and>
                   Namespace \<lparr>Original = ''cart.prod'', Namespace = ''prod'', AppID = ''cart''\<rparr>
                     = Namespace_cfg (config (exampleServer None)))"
    by (simp add: exampleServer_def exampleConfig_def)
  have r: "resolver (exampleServer None) = exampleResolver"
       "connectionCreatorFn (exampleServer None) = exampleConnect"
       "ProxyPort (config (exampleServer None)) = 3500"
    by (simp_all add: exampleServer_def exampleConfig_def)
  have g: "getRemoteProxyAddress (exampleWorld True None) (exampleServer None)
             ''10.0.0.5:3500'' ''cart'' ''prod'' =
           ([CreateConnection ''10.0.0.5:3500'' ''cart'' ''prod'' False False False,
             GetProxyStatus (ClientConn 1) \<lparr>Ver = APIVersion_V1\<rparr>],
            ''10.0.0.5:9000'', None)"
    by (simp add: getRemoteProxyAddress_def exampleServer_def exampleConnect_def exampleWorld_def
        Split_def fmt_d_eval)
  from RoundTrip_remote_order [OF example_header _ example_parse_remote remote,
         of "exampleWorld True None"]
  show ?thesis
    by (simp add: Let_def r exampleResolver_def exampleConnect_def g exampleRequest_def)
qed

text \<open>
  Claim C5. When the connection and the status call succeed and the peer reports
  \<open>enabled = true\<close>, then for an address \<open>host:port\<close>, where \<open>port\<close> has no colon,
  \<open>getRemoteProxyAddress\<close> returns \<open>host:<reported port>\<close> and a \<open>nil\<close> error; for
  \<open>10.0.0.5:3500\<close> and reported port 9000 that is \<open>10.0.0.5:9000\<close>.
\<close>

theorem getRemoteProxyAddress_replaces_port:
  assumes "connectionCreatorFn s addr appID namespace False False False = (conn, None)"
    and "proxyStatus w conn \<lparr>Ver = APIVersion_V1\<rparr> = (st, None)"
    and "Enabled_pb st"
    and "addr = host @ '':'' @ port" and "CHR '':'' \<notin> set port"
  shows "snd (getRemoteProxyAddress w s addr appID namespace) =
           (host @ '':'' @ fmt_d (Port_pb st), None) \<and>
         (host = ''10.0.0.5'' \<and> port = ''3500'' \<and> Port_pb st = 9000 \<longrightarrow>
            snd (getRemoteProxyAddress w s addr appID namespace) = (''10.0.0.5:9000'', None))"
proof -
  have "Join ((Split addr (CHR '':''))[length (Split addr (CHR '':'')) - 1 := fmt_d (Port_pb st)]) '':''
          = host @ CHR '':'' # fmt_d (Port_pb st)"
    using replace_last_segment [OF assms(5), of host "fmt_d (Port_pb st)"] assms(4) by simp
  then have "snd (getRemoteProxyAddress w s addr appID namespace) =
           (host @ '':'' @ fmt_d (Port_pb st), None)"
    using assms(1-3) by (simp add: getRemoteProxyAddress_def Let_def)
  then show ?thesis
    by (auto simp: fmt_d_eval)
qed

theorem getRemoteProxyAddress_replaces_port_witness:
  "snd (getRemoteProxyAddress (exampleWorld True None) (exampleServer None)
          ''10.0.0.5:3500'' ''cart'' ''prod'') = (''10.0.0.5:9000'', None)"
proof -
  have c: "connectionCreatorFn (exampleServer None) ''10.0.0.5:3500'' ''cart'' ''prod''
             False False False = (ClientConn 1, None)"
    by (simp add: exampleServer_def exampleConnect_def)
  have p: "proxyStatus (exampleWorld True None) (ClientConn 1) \<lparr>Ver = APIVersion_V1\<rparr> =
             (\<lparr>Enabled_pb = True, Port_pb = 9000\<rparr>, None)"
    by (simp add: exampleWorld_def)
  have a: "''10.0.0.5:3500'' = ''10.0.0.5'' @ '':'' @ ''3500''" by simp
  from getRemoteProxyAddress_replaces_port [OF c p _ a]
  show ?thesis by (simp add: fmt_d_eval)
qed

text \<open>
  Claim C6. On the remote path, when name resolution, the connection and the status call
  succeed and the peer reports \<open>enabled = false\<close>, \<open>getRemoteProxyAddress\<close> returns the
  error \<open>remote proxy is not enabled\<close>, and the trace of \<open>RoundTrip\<close> has no forward.
\<close>

theorem peer_disabled_no_forward:
  assumes "Header req ''Destination-App-Id'' = Some [v]" and "v \<noteq> []"
    and "resolveTargetAppID (Namespace_cfg (config s)) v = (appID, None)"
    and "\<not> (AppID appID = AppID_cfg (config s) \<and> Namespace appID = Namespace_cfg (config s))"
    and "resolver s \<lparr>ID = AppID appID, Namespace_rr = Namespace appID,
                      Port_rr = ProxyPort (config s)\<rparr> = (addr, None)"
    and "connectionCreatorFn s addr (AppID appID) (Namespace appID) False False False = (conn, None)"
    and "proxyStatus w conn \<lparr>Ver = APIVersion_V1\<rparr> = (st, None)"
    and "\<not> Enabled_pb st"
  shows "snd (getRemoteProxyAddress w s addr (AppID appID) (Namespace appID)) =
           ([], Some (Error ''remote proxy is not enabled'')) \<and>
         filter isForward (fst (RoundTrip w s req)) = []"
proof -
  have rt: "RoundTrip w s req = roundTripRemote w s req appID"
    using assms(4) by (auto simp: RoundTrip_parsed [OF assms(1-3)])
  have g: "getRemoteProxyAddress w s addr (AppID appID) (Namespace appID) =
             ([CreateConnection addr (AppID appID) (Namespace appID) False False False,
               GetProxyStatus conn \<lparr>Ver = APIVersion_V1\<rparr>],
              [], Some (Error ''remote proxy is not enabled''))"
    using assms(6-8) by (simp add: getRemoteProxyAddress_def Let_def)
  have "filter isForward (fst (roundTripRemote w s req appID)) = []"
    using assms(5) g by (simp add: roundTripRemote_def Let_def Debug_def split: option.split)
  with g rt show ?thesis by simp
qed

theorem peer_disabled_no_forward_witness:
  "snd (getRemoteProxyAddress (exampleWorld False None) (exampleServer None)
          ''10.0.0.5:3500'' ''cart'' ''prod'') =
     ([], Some (Error ''remote proxy is not enabled'')) \<and>
   filter isForward (fst (RoundTrip (exampleWorld False None) (exampleServer None)
                 (exampleRequest [''Destination-App-Id'' \<mapsto> [''cart.prod'']]))) = []"
proof -
  have remote: "\<not> (AppID \<lparr>Original = ''cart.prod'', Namespace = ''prod'', AppID = ''cart''\<rparr>
                     = AppID_cfg (config (exampleServer None)) \<and>
                   Namespace \<lparr>Original = ''cart.prod'', Namespace = ''prod'', AppID = ''cart''\<rparr>
                     = Namespace_cfg (config (exampleServer None)))"
    by (simp add: exampleServer_def exampleConfig_def)
  have r: "resolver (exampleServer None)
             \<lparr>ID = AppID \<lparr>Original = ''cart.prod'', Namespace = ''prod'', AppID = ''cart''\<rparr>,
              Namespace_rr = Namespace \<lparr>Original = ''cart.prod'', Namespace = ''prod'', AppID = ''cart''\<rparr>,
              Port_rr = ProxyPort (config (exampleServer None))\<rparr> = (''10.0.0.5:3500'', None)"
    by (simp add: exampleServer_def exampleResolver_def)
  have c: "connectionCreatorFn (exampleServer None) ''10.0.0.5:3500''
             (AppID \<lparr>Original = ''cart.prod'', Namespace = ''prod'', AppID = ''cart''\<rparr>)
             (Namespace \<lparr>Original = ''cart.prod'', Namespace = ''prod'', AppID = ''cart''\<rparr>)
             False False False = (ClientConn 1, None)"
    by (simp add: exampleServer_def exampleConnect_def)
  have p: "proxyStatus (exampleWorld False None) (ClientConn 1) \<lparr>Ver = APIVersion_V1\<rparr> =
             (\<lparr>Enabled_pb = False, Port_pb = 9000\<rparr>, None)"
    by (simp add: exampleWorld_def)
  from peer_disabled_no_forward [OF example_header _ example_parse_remote remote r c p]
  show ?thesis by simp
qed

subsection \<open>The error paths of the dispatcher\<close>

lemma respondWithError_status: "StatusCode (respondWithError code e) = 400"
  by (simp add: respondWithError_def)

lemma RoundTrip_missing_header_logged:
  assumes "Header req ''Destination-App-Id'' = None \<or>
           (\<exists>vs. Header req ''Destination-App-Id'' = Some vs \<and> (length vs \<noteq> 1 \<or> vs = [[]]))"
    and "logger s = Some lg"
  shows "RoundTrip w s req =
           ([LogDebug ''request did not contain Destination-App-Id header''], req,
            Returns (Some \<lparr>StatusCode = 400,
                            Header_res = [''Content-Type'' \<mapsto> [''application/json'']],
                            Body = JSON \<lparr>ErrorCode = ''ERR_MISSING_APPID'',
                              Message = ''the appid must be specified using the Destination-App-Id header''\<rparr>\<rparr>,
                     None))"
  using assms
  by (auto simp: RoundTrip_def Debugf_def respondWithError_def NewErrorResponse_def)

lemma NewProxyServer_example:
  "NewProxyServer exampleConfig NewStatusMonitor exampleResolver exampleConnect = exampleServer None"
  by (simp add: NewProxyServer_def exampleServer_def)

text \<open>
  Claim C7. A request whose \<open>Destination-App-Id\<close> header is missing, empty or has two
  values should get a synthesized 400 response with code \<open>ERR_MISSING_APPID\<close> and a
  \<open>nil\<close> error. On the server that \<open>NewProxyServer\<close> builds, the call of
  \<open>s.logger.Debugf\<close> that precedes the \<open>return\<close> panics, for each of the three shapes
  of the header, because the constructor leaves \<open>logger\<close> \<open>nil\<close>: no response is
  returned. No upstream call is made. With a logger installed the response is the one
  claimed (lemma \<open>RoundTrip_missing_header_logged\<close>).
\<close>

theorem RoundTrip_missing_header_panics:
  "RoundTrip (exampleWorld True None)
     (NewProxyServer exampleConfig NewStatusMonitor exampleResolver exampleConnect)
     (exampleRequest Map.empty) =
   ([], exampleRequest Map.empty, Panics nilDereference) \<and>
   RoundTrip (exampleWorld True None)
     (NewProxyServer exampleConfig NewStatusMonitor exampleResolver exampleConnect)
     (exampleRequest [''Destination-App-Id'' \<mapsto> ['''']]) =
   ([], exampleRequest [''Destination-App-Id'' \<mapsto> ['''']], Panics nilDereference) \<and>
   RoundTrip (exampleWorld True None)
     (NewProxyServer exampleConfig NewStatusMonitor exampleResolver exampleConnect)
     (exampleRequest [''Destination-App-Id'' \<mapsto> [''cart'', ''orders'']]) =
   ([], exampleRequest [''Destination-App-Id'' \<mapsto> [''cart'', ''orders'']], Panics nilDereference)"
  by (simp add: RoundTrip_def NewProxyServer_def exampleRequest_def Debugf_def)

theorem RoundTrip_missing_header_panics_witness:
  "snd (snd (RoundTrip (exampleWorld True None)
     (NewProxyServer exampleConfig NewStatusMonitor exampleResolver exampleConnect)
     (exampleRequest Map.empty))) = Panics nilDereference \<and>
   fst (RoundTrip (exampleWorld True None)
     (NewProxyServer exampleConfig NewStatusMonitor exampleResolver exampleConnect)
     (exampleRequest Map.empty)) = []"
  using RoundTrip_missing_header_panics by simp

text \<open>
  Claim C1. On the remote path, with name resolution successful and the peer reporting
  that its proxy is disabled, the response should have status 500 and code
  \<open>ERR_INTERNAL\<close>. With a logger installed, the response carries \<open>ERR_INTERNAL\<close> but
  its status code is 400, since \<open>respondWithError\<close> ignores its parameter \<open>code\<close>; on
  the server that \<open>NewProxyServer\<close> builds, \<open>s.logger.Debug\<close> panics before the
  response is built.
\<close>

theorem discovery_failure_status_400:
  "RoundTrip (exampleWorld False None) (exampleServer (Some (Logger ''dapr.runtime.proxy'')))
     (exampleRequest [''Destination-App-Id'' \<mapsto> [''cart.prod'']]) =
   ([ResolveID \<lparr>ID = ''cart'', Namespace_rr = ''prod'', Port_rr = 3500\<rparr>,
     CreateConnection ''10.0.0.5:3500'' ''cart'' ''prod'' False False False,
     GetProxyStatus (ClientConn 1) \<lparr>Ver = APIVersion_V1\<rparr>,
     LogDebug ''DERP''],
    exampleRequest [''Destination-App-Id'' \<mapsto> [''cart.prod'']],
    Returns (Some \<lparr>StatusCode = 400,
                    Header_res = [''Content-Type'' \<mapsto> [''application/json'']],
                    Body = JSON \<lparr>ErrorCode = ''ERR_INTERNAL'', Message = ''DERP''\<rparr>\<rparr>, None)) \<and>
   RoundTrip (exampleWorld False None)
     (NewProxyServer exampleConfig NewStatusMonitor exampleResolver exampleConnect)
     (exampleRequest [''Destination-App-Id'' \<mapsto> [''cart.prod'']]) =
   ([ResolveID \<lparr>ID = ''cart'', Namespace_rr = ''prod'', Port_rr = 3500\<rparr>,
     CreateConnection ''10.0.0.5:3500'' ''cart'' ''prod'' False False False,
     GetProxyStatus (ClientConn 1) \<lparr>Ver = APIVersion_V1\<rparr>],
    exampleRequest [''Destination-App-Id'' \<mapsto> [''cart.prod'']],
    Panics nilDereference)"
proof -
  have rt: "\<And>lg. RoundTrip (exampleWorld False None) (exampleServer lg)
               (exampleRequest [''Destination-App-Id'' \<mapsto> [''cart.prod'']]) =
            roundTripRemote (exampleWorld False None) (exampleServer lg)
               (exampleRequest [''Destination-App-Id'' \<mapsto> [''cart.prod'']])
               \<lparr>Original = ''cart.prod'', Namespace = ''prod'', AppID = ''cart''\<rparr>"
  proof -
    fix lg
    have cfg: "AppID_cfg (config (exampleServer lg)) = ''orders''"
      by (simp add: exampleServer_def exampleConfig_def)
    show "RoundTrip (exampleWorld False None) (exampleServer lg)
               (exampleRequest [''Destination-App-Id'' \<mapsto> [''cart.prod'']]) =
            roundTripRemote (exampleWorld False None) (exampleServer lg)
               (exampleRequest [''Destination-App-Id'' \<mapsto> [''cart.prod'']])
               \<lparr>Original = ''cart.prod'', Namespace = ''prod'', AppID = ''cart''\<rparr>"
      by (subst RoundTrip_parsed [OF example_header _ example_parse_remote])
         (simp_all add: cfg)
  qed
  have g: "\<And>lg. getRemoteProxyAddress (exampleWorld False None) (exampleServer lg)
             ''10.0.0.5:3500'' ''cart'' ''prod'' =
           ([CreateConnection ''10.0.0.5:3500'' ''cart'' ''prod'' False False False,
             GetProxyStatus (ClientConn 1) \<lparr>Ver = APIVersion_V1\<rparr>],
            [], Some (Error ''remote proxy is not enabled''))"
    by (simp add: getRemoteProxyAddress_def exampleServer_def exampleConnect_def exampleWorld_def)
  have r: "\<And>lg. resolver (exampleServer lg) = exampleResolver"
       "\<And>lg. logger (exampleServer lg) = lg"
       "\<And>lg. ProxyPort (config (exampleServer lg)) = 3500"
    by (simp_all add: exampleServer_def exampleConfig_def)
  show ?thesis
    by (simp add: NewProxyServer_example rt roundTripRemote_def r exampleResolver_def g Debug_def
        respondWithError_def NewErrorResponse_def)
qed

theorem discovery_failure_status_400_witness:
  "snd (snd (RoundTrip (exampleWorld False None)
     (exampleServer (Some (Logger ''dapr.runtime.proxy'')))
     (exampleRequest [''Destination-App-Id'' \<mapsto> [''cart.prod'']]))) =
   Returns (Some \<lparr>StatusCode = 400,
                   Header_res = [''Content-Type'' \<mapsto> [''application/json'']],
                   Body = JSON \<lparr>ErrorCode = ''ERR_INTERNAL'', Message = ''DERP''\<rparr>\<rparr>, None)"
  using discovery_failure_status_400 by simp

subsection \<open>Publishing the status\<close>

lemma goroutine_invariant:
  "config (srv ((goroutineStep w ^^ n) (fst (StartNonBlocking s)))) = config s \<and>
   (next_call ((goroutineStep w ^^ n) (fst (StartNonBlocking s))) \<noteq> AtSetStatus \<longrightarrow>
      Status (monitor (srv ((goroutineStep w ^^ n) (fst (StartNonBlocking s))))) =
        \<lparr>Enabled = True, Port = ProxyPort (config s)\<rparr>) \<and>
   (listening ((goroutineStep w ^^ n) (fst (StartNonBlocking s))) \<longrightarrow>
      next_call ((goroutineStep w ^^ n) (fst (StartNonBlocking s))) = Serving)"
proof (induction n)
  case 0
  show ?case by (simp add: StartNonBlocking_def)
next
  case (Suc n)
  then show ?case
    by (auto simp: goroutineStep_def SetStatus_def Status_def Fatalf_def
             split: pc.splits option.splits)
qed

text \<open>
  Claim C9, as stated, fails: on the example server, after the goroutine's first call
  the listener is not bound (\<open>ListenAndServe\<close> is the next call), and yet the registry
  does not hold the zero value but \<open>{true, 3500}\<close>; so the registry is enabled while the
  listener is not bound.
\<close>

theorem status_enabled_before_listener_bound:
  "\<not> (\<not> listening (goroutineStep (exampleWorld True None)
                      (fst (StartNonBlocking (exampleServer None)))) \<longrightarrow>
      Status (monitor (srv (goroutineStep (exampleWorld True None)
                      (fst (StartNonBlocking (exampleServer None)))))) = zeroServerStatus) \<and>
   \<not> (Enabled (Status (monitor (srv (goroutineStep (exampleWorld True None)
                      (fst (StartNonBlocking (exampleServer None))))))) \<longrightarrow>
      listening (goroutineStep (exampleWorld True None)
                      (fst (StartNonBlocking (exampleServer None))))) \<and>
   next_call (goroutineStep (exampleWorld True None)
                      (fst (StartNonBlocking (exampleServer None)))) = AtListenAndServe"
  by (simp add: StartNonBlocking_def goroutineStep_def exampleServer_def exampleConfig_def
      SetStatus_def Status_def NewStatusMonitor_def zeroServerStatus_def)

text \<open>
  Claim C9, amended. \<open>StartNonBlocking\<close> returns \<open>nil\<close> and leaves the registry as it
  was constructed (the zero value for a new registry), with no listener bound. The first
  call of the goroutine sets the registry to \<open>{enabled: true, port: ProxyPort}\<close>, before
  \<open>http.ListenAndServe\<close> is called and so before the listener is bound. At every later
  point at which the listener is bound and serving the registry holds that value, and
  when \<open>ListenAndServe\<close> binds, the second call of the goroutine makes the listener
  bound.
\<close>

theorem status_published_before_ListenAndServe:
  "snd (StartNonBlocking s) = None \<and>
   next_call (fst (StartNonBlocking s)) = AtSetStatus \<and>
   \<not> listening (fst (StartNonBlocking s)) \<and>
   Status (monitor (srv (fst (StartNonBlocking s)))) = Status (monitor s) \<and>
   (monitor s = NewStatusMonitor \<longrightarrow>
      Status (monitor (srv (fst (StartNonBlocking s)))) = zeroServerStatus) \<and>
   Status (monitor (srv (goroutineStep w (fst (StartNonBlocking s))))) =
     \<lparr>Enabled = True, Port = ProxyPort (config s)\<rparr> \<and>
   \<not> listening (goroutineStep w (fst (StartNonBlocking s))) \<and>
   next_call (goroutineStep w (fst (StartNonBlocking s))) = AtListenAndServe \<and>
   (\<forall>n. listening ((goroutineStep w ^^ n) (fst (StartNonBlocking s))) \<longrightarrow>
        Status (monitor (srv ((goroutineStep w ^^ n) (fst (StartNonBlocking s))))) =
          \<lparr>Enabled = True, Port = ProxyPort (config s)\<rparr>) \<and>
   (ListenAndServe w (CHR '':'' # fmt_d (ProxyPort (config s))) = None \<longrightarrow>
      listening ((goroutineStep w ^^ 2) (fst (StartNonBlocking s))))"
proof -
  have start: "snd (StartNonBlocking s) = None \<and>
      next_call (fst (StartNonBlocking s)) = AtSetStatus \<and>
      \<not> listening (fst (StartNonBlocking s)) \<and>
      Status (monitor (srv (fst (StartNonBlocking s)))) = Status (monitor s) \<and>
      (monitor s = NewStatusMonitor \<longrightarrow>
         Status (monitor (srv (fst (StartNonBlocking s)))) = zeroServerStatus)"
    by (simp add: StartNonBlocking_def Status_def NewStatusMonitor_def)
  have first: "Status (monitor (srv (goroutineStep w (fst (StartNonBlocking s))))) =
        \<lparr>Enabled = True, Port = ProxyPort (config s)\<rparr> \<and>
      \<not> listening (goroutineStep w (fst (StartNonBlocking s))) \<and>
      next_call (goroutineStep w (fst (StartNonBlocking s))) = AtListenAndServe"
    by (simp add: StartNonBlocking_def goroutineStep_def SetStatus_def Status_def)
  have always: "\<forall>n. listening ((goroutineStep w ^^ n) (fst (StartNonBlocking s))) \<longrightarrow>
        Status (monitor (srv ((goroutineStep w ^^ n) (fst (StartNonBlocking s))))) =
          \<lparr>Enabled = True, Port = ProxyPort (config s)\<rparr>"
  proof (intro allI impI)
    fix n
    assume l: "listening ((goroutineStep w ^^ n) (fst (StartNonBlocking s)))"
    from goroutine_invariant [where w = w and n = n and s = s] l
    have "next_call ((goroutineStep w ^^ n) (fst (StartNonBlocking s))) = Serving" by simp
    with goroutine_invariant [where w = w and n = n and s = s]
    show "Status (monitor (srv ((goroutineStep w ^^ n) (fst (StartNonBlocking s))))) =
          \<lparr>Enabled = True, Port = ProxyPort (config s)\<rparr>" by simp
  qed
  have binds: "ListenAndServe w (CHR '':'' # fmt_d (ProxyPort (config s))) = None \<longrightarrow>
      listening ((goroutineStep w ^^ 2) (fst (StartNonBlocking s)))"
    by (simp add: numeral_2_eq_2 StartNonBlocking_def goroutineStep_def)
  from start first always binds show ?thesis by blast
qed

theorem status_published_before_ListenAndServe_witness:
  "Status (monitor (srv (fst (StartNonBlocking (exampleServer None))))) = zeroServerStatus \<and>
   listening ((goroutineStep (exampleWorld True None) ^^ 2)
                (fst (StartNonBlocking (exampleServer None)))) \<and>
   Status (monitor (srv ((goroutineStep (exampleWorld True None) ^^ 2)
                (fst (StartNonBlocking (exampleServer None)))))) =
     \<lparr>Enabled = True, Port = 3500\<rparr>"
proof -
  have m: "monitor (exampleServer None) = NewStatusMonitor"
    by (simp add: exampleServer_def)
  have l: "ListenAndServe (exampleWorld True None)
             (CHR '':'' # fmt_d (ProxyPort (config (exampleServer None)))) = None"
    by (simp add: exampleWorld_def)
  have p: "ProxyPort (config (exampleServer None)) = 3500"
    by (simp add: exampleServer_def exampleConfig_def)
  from status_published_before_ListenAndServe
         [where s = "exampleServer None" and w = "exampleWorld True None"] m l
  have "Status (monitor (srv (fst (StartNonBlocking (exampleServer None))))) = zeroServerStatus \<and>
   listening ((goroutineStep (exampleWorld True None) ^^ 2)
                (fst (StartNonBlocking (exampleServer None)))) \<and>
   Status (monitor (srv ((goroutineStep (exampleWorld True None) ^^ 2)
                (fst (StartNonBlocking (exampleServer None)))))) =
     \<lparr>Enabled = True, Port = ProxyPort (config (exampleServer None))\<rparr>"
    by blast
  then show ?thesis by (simp only: p)
qed

end
